theory Spec2Isabelle
  imports Complex_Main
begin

section \<open>A discrete Markov chain for the spread of COVID-19\<close>

text \<open>
  The notebook \<^verbatim>\<open>projects/interactive_markov_covid-16.ipynb\<close> (Python 2, numpy) steps a
  population vector over the six states Healthy, Carrier, Symptomatic, Hospitalizable,
  Dead and Immune through a transition matrix that is rebuilt every day.

  Conventions of the embedding:
  \<^item> A Python or numpy float is a \<^typ>\<open>real\<close>: the arithmetic of the model is exact, and
    what is proved of it holds of the floating-point program up to rounding only.
  \<^item> An exception is a value \<open>Inl e\<close> of the sum type \<open>error + 'a\<close>.
  \<^item> A Python float divided by zero raises \<^verbatim>\<open>ZeroDivisionError\<close>. A numpy float64 divided
    by zero does not raise: the quotient is \<^verbatim>\<open>nan\<close> or \<^verbatim>\<open>inf\<close>. The model carries no such
    value; a computation in which one arises has the outcome \<open>Inl NonFinite\<close>.
  \<^item> The module-level names that the two functions read are the fields of the record
    \<open>globals\<close>, passed explicitly; \<open>notebook\<close> holds the values the notebook binds.
\<close>

datatype error = KeyError | IndexError | ZeroDivisionError | ValueError | NonFinite

definition bindE :: "error + 'a \<Rightarrow> ('a \<Rightarrow> error + 'b) \<Rightarrow> error + 'b" where
  "bindE m f = (case m of Inl e \<Rightarrow> Inl e | Inr v \<Rightarrow> f v)"

text \<open>Subscription \<^verbatim>\<open>xs[i]\<close> of a Python list or a numpy vector: a negative index counts
  from the end, an index out of range raises \<^verbatim>\<open>IndexError\<close>.\<close>

definition getitem :: "'a list \<Rightarrow> int \<Rightarrow> error + 'a" where
  "getitem xs i =
     (if 0 \<le> i \<and> i < int (length xs) then Inr (xs ! nat i)
      else if - int (length xs) \<le> i \<and> i < 0 then Inr (xs ! nat (int (length xs) + i))
      else Inl IndexError)"

text \<open>\<^verbatim>\<open>a / b\<close> on Python floats, and on numpy float64 scalars.\<close>

definition float_div :: "real \<Rightarrow> real \<Rightarrow> error + real" where
  "float_div a b = (if b = 0 then Inl ZeroDivisionError else Inr (a / b))"

definition float64_div :: "real \<Rightarrow> real \<Rightarrow> error + real" where
  "float64_div a b = (if b = 0 then Inl NonFinite else Inr (a / b))"

text \<open>\<^verbatim>\<open>int(x)\<close> of a finite float truncates towards zero.\<close>

definition py_int :: "real \<Rightarrow> int" where
  "py_int x = (if 0 \<le> x then \<lfloor>x\<rfloor> else \<lceil>x\<rceil>)"

text \<open>\<^verbatim>\<open>range(0, n)\<close>.\<close>

definition py_range :: "int \<Rightarrow> int list" where
  "py_range n = map int [0..<nat n]"

subsection \<open>States and scenarios\<close>

definition states :: "string list" where
  "states = [''H'', ''C'', ''S'', ''X'', ''D'', ''I'']"

definition state_index :: "string \<rightharpoonup> nat" where
  "state_index = map_of (zip states [0, 1, 2, 3, 4, 5])"

text \<open>\<^verbatim>\<open>population[state_index[k]]\<close>.\<close>

definition population_at :: "real list \<Rightarrow> string \<Rightarrow> error + real" where
  "population_at population k =
     (case state_index k of
        None \<Rightarrow> Inl KeyError
      | Some i \<Rightarrow> getitem population (int i))"

record scenario =
  R_0 :: "real list"
  lenght_of_sickness_for_R_0 :: int

subsection \<open>Probabilities and intensities\<close>

text \<open>The names bound under PROBABILITY ASSUMPTIONS and TIME ASSUMPTIONS.\<close>

record assumptions = scenario +
  prob_symptomatic_from_carrier :: real
  prob_immune_from_carrier :: real
  prob_hospitalizable_from_symptomatic :: real
  prob_immune_from_symptomatic :: real
  prob_dead_from_hospitalizable :: real
  prob_immune_from_hospitalizable :: real
  carrier_to_symptomatic_avg :: int
  carrier_to_immune_avg :: int
  symptomatic_to_immune_avg :: int
  symptomatic_to_hospitalizable_avg :: int
  hospitalizable_to_death_avg :: int
  hospitalizable_to_immune_avg :: int

text \<open>The names bound under TRANSITION PROBABILITIES are added to them.\<close>

record globals = assumptions +
  cs :: real
  ci :: real
  sx :: real
  si :: real
  xd :: real
  xi :: real

text \<open>The six assignments under TRANSITION PROBABILITIES, \<^verbatim>\<open>prob * 1 / avg\<close> each, as a
  function of the names they read. The only failure is the division of a float by the
  integer zero.\<close>

definition transition_probabilities :: "assumptions \<Rightarrow> error + globals" where
  "transition_probabilities a =
     bindE (float_div (prob_symptomatic_from_carrier a * 1)
                      (of_int (carrier_to_symptomatic_avg a))) (\<lambda>cs'.
     bindE (float_div (prob_immune_from_carrier a * 1)
                      (of_int (carrier_to_immune_avg a))) (\<lambda>ci'.
     bindE (float_div (prob_hospitalizable_from_symptomatic a * 1)
                      (of_int (symptomatic_to_hospitalizable_avg a))) (\<lambda>sx'.
     bindE (float_div (prob_immune_from_symptomatic a * 1)
                      (of_int (symptomatic_to_immune_avg a))) (\<lambda>si'.
     bindE (float_div (prob_dead_from_hospitalizable a * 1)
                      (of_int (hospitalizable_to_death_avg a))) (\<lambda>xd'.
     bindE (float_div (prob_immune_from_hospitalizable a * 1)
                      (of_int (hospitalizable_to_immune_avg a))) (\<lambda>xi'.
     Inr (assumptions.extend a
            (globals.fields cs' ci' sx' si' xd' xi'))))))))"

text \<open>The values of the notebook.\<close>

definition asymptomatic_carriers_vs_all :: real where
  "asymptomatic_carriers_vs_all = 0.60"

definition w_sum_cdc :: real where
  "w_sum_cdc =
     (123 * sum_list [1.6, 2.5] / 2 + 705 * sum_list [14.3, 20.8] / 2
      + 429 * sum_list [21.2, 28.3] / 2 + 429 * sum_list [20.5, 30.1] / 2
      + 409 * sum_list [28.6, 43.5] / 2 + 210 * sum_list [30.5, 58.7] / 2
      + 144 * sum_list [31.3, 70.3] / 2) / 2449"

definition dr_cdc :: real where
  "dr_cdc = ((1.8 + 3.4) / 2) / (w_sum_cdc / 100)"

definition notebook_assumptions :: assumptions where
  "notebook_assumptions =
     \<lparr> R_0 = [2.5, 1.7, 0.9],
       lenght_of_sickness_for_R_0 = 20,
       prob_symptomatic_from_carrier = 1 - asymptomatic_carriers_vs_all,
       prob_immune_from_carrier = 1 - (1 - asymptomatic_carriers_vs_all),
       prob_hospitalizable_from_symptomatic = w_sum_cdc / 100,
       prob_immune_from_symptomatic = 1 - w_sum_cdc / 100,
       prob_dead_from_hospitalizable = dr_cdc / 100,
       prob_immune_from_hospitalizable = 1 - dr_cdc / 100,
       carrier_to_symptomatic_avg = 6,
       carrier_to_immune_avg = 10,
       symptomatic_to_immune_avg = 11,
       symptomatic_to_hospitalizable_avg = 5,
       hospitalizable_to_death_avg = 4,
       hospitalizable_to_immune_avg = 12 \<rparr>"

definition notebook :: globals where
  "notebook = projr (transition_probabilities notebook_assumptions)"

subsection \<open>Transmission model\<close>

text \<open>The matrix \<^verbatim>\<open>covid_19\<close> of \<^verbatim>\<open>covid_19_one_day\<close>, for a given \<open>hc\<close>.\<close>

definition covid_19 :: "globals \<Rightarrow> real \<Rightarrow> real list list" where
  "covid_19 g hc =
     [[1 - hc, hc, 0, 0, 0, 0],
      [0, 1 - cs g - ci g, cs g, 0, 0, ci g],
      [0, 0, 1 - sx g - si g, sx g, 0, si g],
      [0, 0, 0, 1 - xd g - xi g, xd g, xi g],
      [0, 0, 0, 0, 1, 0],
      [0, 0, 0, 0, 0, 1]]"

text \<open>The six reads of the population and the assignment to \<^verbatim>\<open>hc\<close>, evaluated from left
  to right as Python does:
  \<^verbatim>\<open>((R_0[countermeasures] / lenght_of_sickness_for_R_0) * (C + S + X)) / (H + C + S + X + I)\<close>.
  The first quotient is of a Python float by a Python int, the second of numpy scalars.\<close>

definition hc :: "globals \<Rightarrow> real list \<Rightarrow> int \<Rightarrow> error + real" where
  "hc g population countermeasures =
     bindE (population_at population ''H'') (\<lambda>H.
     bindE (population_at population ''C'') (\<lambda>C.
     bindE (population_at population ''S'') (\<lambda>S.
     bindE (population_at population ''X'') (\<lambda>X.
     bindE (population_at population ''D'') (\<lambda>D.
     bindE (population_at population ''I'') (\<lambda>I.
     bindE (getitem (R_0 g) countermeasures) (\<lambda>r.
     bindE (float_div r (of_int (lenght_of_sickness_for_R_0 g))) (\<lambda>q.
     float64_div (q * (C + S + X)) (H + C + S + X + I)))))))))"

text \<open>The transition matrix that \<^verbatim>\<open>covid_19_one_day\<close> builds for a population and a
  level of countermeasures.\<close>

definition transition_matrix :: "globals \<Rightarrow> real list \<Rightarrow> int \<Rightarrow> error + real list list" where
  "transition_matrix g population countermeasures =
     bindE (hc g population countermeasures) (\<lambda>p. Inr (covid_19 g p))"

text \<open>\<^verbatim>\<open>np.dot(a, b)\<close> of a vector and a matrix of six columns: \<^verbatim>\<open>ValueError\<close> when the
  vector has not as many entries as the matrix has rows.\<close>

definition dot :: "real list \<Rightarrow> real list list \<Rightarrow> error + real list" where
  "dot a b =
     (if length a \<noteq> length b then Inl ValueError
      else Inr (map (\<lambda>j. sum_list (map2 (\<lambda>x row. x * row ! j) a b)) [0, 1, 2, 3, 4, 5]))"

definition covid_19_one_day :: "globals \<Rightarrow> real list \<Rightarrow> int \<Rightarrow> error + real list" where
  "covid_19_one_day g population countermeasures =
     bindE (transition_matrix g population countermeasures) (\<lambda>m. dot population m)"

subsection \<open>Simulation\<close>

text \<open>The back-derivation of the starting population vector from the three inputs
  (after \<^verbatim>\<open>float(...)\<close>), in Python floats.\<close>

definition seed_vector :: "globals \<Rightarrow> real \<Rightarrow> real \<Rightarrow> real \<Rightarrow> error + real list" where
  "seed_vector g Healthy Dead Immune =
     bindE (float_div (Dead * (1 - prob_dead_from_hospitalizable g))
                      (prob_dead_from_hospitalizable g)) (\<lambda>Hospitalizable.
     bindE (float_div (Hospitalizable * (1 - prob_hospitalizable_from_symptomatic g))
                      (prob_hospitalizable_from_symptomatic g)) (\<lambda>Symptomatic.
     bindE (float_div (Symptomatic * (1 - prob_symptomatic_from_carrier g))
                      (prob_symptomatic_from_carrier g)) (\<lambda>Carriers.
     Inr [Healthy, Carriers, Symptomatic, Hospitalizable, Dead, Immune])))"

text \<open>\<^verbatim>\<open>[num / all_population for num in pop_vector]\<close>.\<close>

fun normalise :: "real list \<Rightarrow> real \<Rightarrow> error + real list" where
  "normalise [] all_population = Inr []"
| "normalise (num # nums) all_population =
     bindE (float_div num all_population) (\<lambda>q.
     bindE (normalise nums all_population) (\<lambda>qs. Inr (q # qs)))"

text \<open>The two \<^verbatim>\<open>if\<close> statements that update the government countermeasures.\<close>

definition government_countermeasures :: "int \<Rightarrow> int \<Rightarrow> int \<Rightarrow> int \<Rightarrow> int" where
  "government_countermeasures social_distance_after lockdown_after day countermeasures =
     (let c1 = (if day \<ge> social_distance_after then 1 else countermeasures);
          c2 = (if day \<ge> lockdown_after then 2 else c1)
      in c2)"

record loop_state =
  countermeasures :: int
  population_vector :: "real list"
  evolution :: "int list list"

text \<open>One pass through the body of the \<^verbatim>\<open>for\<close> loop.\<close>

definition loop_body :: "globals \<Rightarrow> real \<Rightarrow> int \<Rightarrow> int \<Rightarrow> int \<Rightarrow> loop_state \<Rightarrow> error + loop_state" where
  "loop_body g all_population social_distance_after lockdown_after day st =
     (let c = government_countermeasures social_distance_after lockdown_after day
                (countermeasures st)
      in bindE (covid_19_one_day g (population_vector st) c) (\<lambda>pv.
         Inr \<lparr> countermeasures = c,
               population_vector = pv,
               evolution = evolution st @ [map (\<lambda>num. py_int (num * all_population)) pv] \<rparr>))"

fun for_days :: "(int \<Rightarrow> loop_state \<Rightarrow> error + loop_state) \<Rightarrow> int list \<Rightarrow> loop_state \<Rightarrow> error + loop_state" where
  "for_days body [] st = Inr st"
| "for_days body (day # days) st = bindE (body day st) (for_days body days)"

text \<open>\<^verbatim>\<open>simulate_covid19\<close> down to the end of the loop, returning the loop's variables.\<close>

definition simulate_loop :: "globals \<Rightarrow> real \<Rightarrow> real \<Rightarrow> real \<Rightarrow> int \<Rightarrow> int \<Rightarrow> int \<Rightarrow> error + loop_state" where
  "simulate_loop g Healthy Dead Immune total_days social_distance_after lockdown_after =
     bindE (seed_vector g Healthy Dead Immune) (\<lambda>pop_vector.
     let all_population = sum_list pop_vector in
     bindE (normalise pop_vector all_population) (\<lambda>pop_vector'.
     for_days (loop_body g all_population social_distance_after lockdown_after)
       (py_range total_days)
       \<lparr> countermeasures = 0, population_vector = pop_vector', evolution = [] \<rparr>))"

text \<open>The function hands \<^verbatim>\<open>evolution\<close> to the plotting and statistics code; the model
  returns it.\<close>

definition simulate_covid19 :: "globals \<Rightarrow> real \<Rightarrow> real \<Rightarrow> real \<Rightarrow> int \<Rightarrow> int \<Rightarrow> int \<Rightarrow> error + int list list" where
  "simulate_covid19 g Healthy Dead Immune total_days social_distance_after lockdown_after =
     bindE (simulate_loop g Healthy Dead Immune total_days social_distance_after lockdown_after)
       (\<lambda>st. Inr (evolution st))"

subsection \<open>Vocabulary of the properties\<close>

text \<open>Globals under which the matrix holds probabilities: \<open>R_0\<close> has the three scenarios,
  each between 0 and the length of sickness, the three shares of the back-derivation
  are positive shares, and the exits of a state are non-negative and sum to at most 1.\<close>

definition plausible :: "globals \<Rightarrow> bool" where
  "plausible g \<longleftrightarrow>
     3 \<le> length (R_0 g) \<and> 0 < lenght_of_sickness_for_R_0 g \<and>
     list_all (\<lambda>r. 0 \<le> r \<and> r \<le> of_int (lenght_of_sickness_for_R_0 g)) (R_0 g) \<and>
     0 < prob_dead_from_hospitalizable g \<and> prob_dead_from_hospitalizable g < 1 \<and>
     0 < prob_hospitalizable_from_symptomatic g \<and> prob_hospitalizable_from_symptomatic g \<le> 1 \<and>
     0 < prob_symptomatic_from_carrier g \<and> prob_symptomatic_from_carrier g \<le> 1 \<and>
     0 \<le> cs g \<and> 0 \<le> ci g \<and> cs g + ci g \<le> 1 \<and>
     0 \<le> sx g \<and> 0 \<le> si g \<and> sx g + si g \<le> 1 \<and>
     0 \<le> xd g \<and> 0 \<le> xi g \<and> xd g + xi g \<le> 1 \<and> xd g < 1"

text \<open>A population vector of fractions: six non-negative entries that sum to 1, not
  everybody dead.\<close>

definition fractions :: "real list \<Rightarrow> bool" where
  "fractions pv \<longleftrightarrow> length pv = 6 \<and> list_all (\<lambda>v. 0 \<le> v) pv \<and> sum_list pv = 1 \<and> pv ! 4 < 1"

text \<open>The policy schedule in the words of the specification: the phases (0 without
  countermeasures, 1 social distancing, 2 lockdown) with the day from which each applies,
  the first from day 0; the phases ordered by increasing onset, those of equal onset in
  the order of their numbers; and the active phase of a day, the last one in that order
  whose onset is not after the day.\<close>

definition onset_day :: "int \<Rightarrow> int \<Rightarrow> int \<Rightarrow> int" where
  "onset_day social_distance_after lockdown_after phase =
     (if phase = 0 then 0 else if phase = 1 then social_distance_after else lockdown_after)"

definition phases_by_onset :: "int \<Rightarrow> int \<Rightarrow> int list" where
  "phases_by_onset social_distance_after lockdown_after =
     sort_key (onset_day social_distance_after lockdown_after) [0, 1, 2]"

definition last_phase_begun :: "int \<Rightarrow> int \<Rightarrow> int \<Rightarrow> int" where
  "last_phase_begun social_distance_after lockdown_after day =
     last (filter (\<lambda>phase. onset_day social_distance_after lockdown_after phase \<le> day)
             (phases_by_onset social_distance_after lockdown_after))"

text \<open>What holds of the loop's variables after every day of a run from a seed of total \<open>T\<close>:
  the vector holds fractions, the level of countermeasures is one of the three, the last
  reported day is the truncation of the vector, and the reported days have
  non-decreasing Dead and Immune entries and sums between \<open>T - 6\<close> and \<open>T\<close>.\<close>

definition loop_invariant :: "real \<Rightarrow> loop_state \<Rightarrow> bool" where
  "loop_invariant T s \<longleftrightarrow>
     fractions (population_vector s) \<and>
     0 \<le> countermeasures s \<and> countermeasures s \<le> 2 \<and>
     (evolution s = [] \<or>
      last (evolution s) = map (\<lambda>num. py_int (num * T)) (population_vector s)) \<and>
     list_all (\<lambda>state. state ! 4 \<le> py_int (population_vector s ! 4 * T) \<and>
                       state ! 5 \<le> py_int (population_vector s ! 5 * T) \<and>
                       real_of_int (sum_list state) \<le> T \<and>
                       T - 6 < real_of_int (sum_list state)) (evolution s) \<and>
     sorted (map (\<lambda>state. state ! 4) (evolution s)) \<and>
     sorted (map (\<lambda>state. state ! 5) (evolution s))"

section \<open>Basic facts\<close>

lemma bindE_simps [simp]:
  "bindE (Inl e) f = Inl e"
  "bindE (Inr v) f = f v"
  by (simp_all add: bindE_def)

lemma bindE_eq_Inr: "bindE m f = Inr y \<longleftrightarrow> (\<exists>v. m = Inr v \<and> f v = Inr y)"
  by (cases m) simp_all

lemma state_index_simps [simp]:
  "state_index ''H'' = Some 0"
  "state_index ''C'' = Some 1"
  "state_index ''S'' = Some 2"
  "state_index ''X'' = Some 3"
  "state_index ''D'' = Some 4"
  "state_index ''I'' = Some 5"
  by (simp_all add: state_index_def states_def)

lemma population_at_six [simp]:
  "population_at [h, c, s, x, d, i] ''H'' = Inr h"
  "population_at [h, c, s, x, d, i] ''C'' = Inr c"
  "population_at [h, c, s, x, d, i] ''S'' = Inr s"
  "population_at [h, c, s, x, d, i] ''X'' = Inr x"
  "population_at [h, c, s, x, d, i] ''D'' = Inr d"
  "population_at [h, c, s, x, d, i] ''I'' = Inr i"
  by (simp_all add: population_at_def getitem_def)

lemma list6: "length xs = 6 \<Longrightarrow> \<exists>a b c d e f. xs = [a, b, c, d, e, f]"
  by (auto simp: eval_nat_numeral length_Suc_conv)

lemma getitem_range:
  "getitem xs k = Inr v \<Longrightarrow> - int (length xs) \<le> k \<and> k < int (length xs)"
  by (auto simp: getitem_def Let_def split: if_splits)

lemma getitem_Inr:
  "- int (length xs) \<le> k \<Longrightarrow> k < int (length xs) \<Longrightarrow> \<exists>v. getitem xs k = Inr v \<and> v \<in> set xs"
  by (auto simp: getitem_def Let_def)

lemma getitem_mem: "getitem xs k = Inr v \<Longrightarrow> v \<in> set xs"
  by (auto simp: getitem_def Let_def split: if_splits)

text \<open>The values that the notebook's cells bind, as fractions.\<close>

lemma notebook_fields:
  "R_0 notebook = [2.5, 1.7, 0.9]"
  "lenght_of_sickness_for_R_0 notebook = 20"
  "prob_symptomatic_from_carrier notebook = 2 / 5"
  "prob_hospitalizable_from_symptomatic notebook = 32761 / 122450"
  "prob_dead_from_hospitalizable notebook = 31837 / 327610"
  "cs notebook = 1 / 15"
  "ci notebook = 3 / 50"
  "sx notebook = 32761 / 612250"
  "si notebook = 89689 / 1346950"
  "xd notebook = 31837 / 1310440"
  "xi notebook = 295773 / 3931320"
  by (simp_all add: notebook_def transition_probabilities_def notebook_assumptions_def
      float_div_def assumptions.defs globals.defs scenario.defs
      asymptomatic_carriers_vs_all_def w_sum_cdc_def dr_cdc_def)

subsection \<open>One day in closed form\<close>

lemma hc_six:
  "hc g [h, c, s, x, d, i] k =
     bindE (getitem (R_0 g) k) (\<lambda>r.
     bindE (float_div r (of_int (lenght_of_sickness_for_R_0 g))) (\<lambda>q.
     float64_div (q * (c + s + x)) (h + c + s + x + i)))"
  by (simp add: hc_def)

lemma dot_six:
  "dot [h, c, s, x, d, i] (covid_19 g p) =
     Inr [h * (1 - p), h * p + c * (1 - cs g - ci g), c * cs g + s * (1 - sx g - si g),
          s * sx g + x * (1 - xd g - xi g), x * xd g + d, c * ci g + s * si g + x * xi g + i]"
  by (simp add: dot_def covid_19_def)

lemma dot_length: "dot pv (covid_19 g p) = Inr pv' \<Longrightarrow> length pv = 6"
  by (auto simp: dot_def covid_19_def split: if_splits)

lemma one_day_InrD:
  assumes "covid_19_one_day g pv k = Inr pv'"
  shows "\<exists>h c s x d i p. pv = [h, c, s, x, d, i] \<and> hc g pv k = Inr p \<and>
     pv' = [h * (1 - p), h * p + c * (1 - cs g - ci g), c * cs g + s * (1 - sx g - si g),
          s * sx g + x * (1 - xd g - xi g), x * xd g + d, c * ci g + s * si g + x * xi g + i]"
proof -
  from assms obtain p where p: "hc g pv k = Inr p" and d: "dot pv (covid_19 g p) = Inr pv'"
    by (auto simp: covid_19_one_day_def transition_matrix_def bindE_eq_Inr)
  from d have "length pv = 6" by (rule dot_length)
  then obtain h c s x d' i where pv: "pv = [h, c, s, x, d', i]"
    using list6 by blast
  with d have "pv' = [h * (1 - p), h * p + c * (1 - cs g - ci g), c * cs g + s * (1 - sx g - si g),
          s * sx g + x * (1 - xd g - xi g), x * xd g + d', c * ci g + s * si g + x * xi g + i]"
    by (simp add: dot_six)
  with p pv show ?thesis by blast
qed

lemma one_day_sum:
  assumes "covid_19_one_day g pv k = Inr pv'"
  shows "length pv' = 6 \<and> sum_list pv' = sum_list pv"
proof -
  from one_day_InrD [OF assms] obtain h c s x d i p where
    "pv = [h, c, s, x, d, i]" and
    "pv' = [h * (1 - p), h * p + c * (1 - cs g - ci g), c * cs g + s * (1 - sx g - si g),
          s * sx g + x * (1 - xd g - xi g), x * xd g + d, c * ci g + s * si g + x * xi g + i]"
    by blast
  then show ?thesis by (simp add: algebra_simps)
qed

section \<open>The transition matrix\<close>

text \<open>
  Claim C3. For a population vector \<open>[H, C, S, X, D, I]\<close> whose contact pool
  \<open>H + C + S + X + I\<close> is not zero (in particular for non-negative entries with a positive
  pool), a level of countermeasures at which \<open>R_0\<close> holds \<open>r\<close>, and a non-zero length of
  sickness, the one-day probability from Healthy to Carrier is
  \<open>r / lenght_of_sickness_for_R_0 * ((C + S + X) / (H + C + S + X + I))\<close>, and the matrix is
  exactly the fixed pattern: Healthy to Healthy \<open>1 - hc\<close> and to Carrier \<open>hc\<close>; Carrier to
  Carrier \<open>1 - cs - ci\<close>, to Symptomatic \<open>cs\<close>, to Immune \<open>ci\<close>; Symptomatic to Symptomatic
  \<open>1 - sx - si\<close>, to Hospitalizable \<open>sx\<close>, to Immune \<open>si\<close>; Hospitalizable to Hospitalizable
  \<open>1 - xd - xi\<close>, to Dead \<open>xd\<close>, to Immune \<open>xi\<close>; Dead to Dead 1; Immune to Immune 1; every
  other entry 0.
\<close>

theorem transition_matrix_pattern:
  fixes g :: globals and H C S X D I r :: real and countermeasures :: int
  defines "p \<equiv> r / of_int (lenght_of_sickness_for_R_0 g) * ((C + S + X) / (H + C + S + X + I))"
  assumes "getitem (R_0 g) countermeasures = Inr r"
      and "lenght_of_sickness_for_R_0 g \<noteq> 0"
      and "H + C + S + X + I \<noteq> 0"
  shows "hc g [H, C, S, X, D, I] countermeasures = Inr p \<and>
         transition_matrix g [H, C, S, X, D, I] countermeasures =
           Inr [[1 - p, p, 0, 0, 0, 0],
                [0, 1 - cs g - ci g, cs g, 0, 0, ci g],
                [0, 0, 1 - sx g - si g, sx g, 0, si g],
                [0, 0, 0, 1 - xd g - xi g, xd g, xi g],
                [0, 0, 0, 0, 1, 0],
                [0, 0, 0, 0, 0, 1]]"
  using assms by (simp add: transition_matrix_def hc_six float_div_def float64_div_def covid_19_def)

text \<open>With the notebook's values, social distancing in force and the population
  \<open>[90, 5, 3, 1, 1, 0]\<close>: \<open>hc = 1.7 / 20 * (9 / 99)\<close>.\<close>

theorem transition_matrix_pattern_witness:
  "hc notebook [90, 5, 3, 1, 1, 0] 1 = Inr (17 / 2200) \<and>
   transition_matrix notebook [90, 5, 3, 1, 1, 0] 1 =
     Inr [[2183 / 2200, 17 / 2200, 0, 0, 0, 0],
          [0, 131 / 150, 1 / 15, 0, 0, 3 / 50],
          [0, 0, 2962967 / 3367375, 32761 / 612250, 0, 89689 / 1346950],
          [0, 0, 0, 295003 / 327610, 31837 / 1310440, 98591 / 1310440],
          [0, 0, 0, 0, 1, 0],
          [0, 0, 0, 0, 0, 1]]"
  using transition_matrix_pattern [of notebook 1 "17 / 10" 90 5 3 1 0 1]
  by (simp add: notebook_fields getitem_def)

text \<open>
  Claim C1, amended. For every population vector of six entries whose contact pool
  \<open>H + C + S + X + I\<close> is not zero, every index that \<open>R_0\<close> accepts and a non-zero length
  of sickness, the matrix is built, has six rows, and each row sums to 1. (The claim
  as stated asks this of every vector with non-negative entries; the vector in which
  everybody is dead has them and a contact pool of zero.)
\<close>

theorem transition_matrix_rows_sum_to_one:
  fixes countermeasures :: int
  assumes "length population = 6"
      and "- int (length (R_0 g)) \<le> countermeasures"
      and "countermeasures < int (length (R_0 g))"
      and "lenght_of_sickness_for_R_0 g \<noteq> 0"
      and "population ! 0 + population ! 1 + population ! 2 + population ! 3 + population ! 5 \<noteq> 0"
  shows "\<exists>m. transition_matrix g population countermeasures = Inr m \<and> length m = 6 \<and>
             (\<forall>row \<in> set m. sum_list row = 1)"
proof -
  from assms(1) obtain h c s x d i where pv: "population = [h, c, s, x, d, i]"
    using list6 by blast
  from assms(2,3) obtain r where r: "getitem (R_0 g) countermeasures = Inr r"
    using getitem_Inr by blast
  from assms(5) pv have nz: "h + c + s + x + i \<noteq> 0" by simp
  have "transition_matrix g population countermeasures =
          Inr (covid_19 g (r / of_int (lenght_of_sickness_for_R_0 g) * (c + s + x) / (h + c + s + x + i)))"
    using pv r nz assms(4) by (simp add: transition_matrix_def hc_six float_div_def float64_div_def)
  moreover have "length (covid_19 g q) = 6 \<and> (\<forall>row \<in> set (covid_19 g q). sum_list row = 1)" for q
    by (simp add: covid_19_def)
  ultimately show ?thesis by blast
qed

theorem transition_matrix_rows_sum_to_one_witness:
  "\<exists>m. transition_matrix notebook [90, 5, 3, 1, 1, 0] 2 = Inr m \<and> length m = 6 \<and>
       (\<forall>row \<in> set m. sum_list row = 1)"
  using transition_matrix_rows_sum_to_one [of "[90, 5, 3, 1, 1, 0]" notebook 2]
  by (simp add: notebook_fields)

text \<open>The population in which everybody is dead has non-negative entries, and no matrix
  with rows summing to 1 is built for it: \<open>hc\<close> is \<^verbatim>\<open>0.0 / 0.0\<close>, so that the first row is
  \<^verbatim>\<open>[nan, nan, 0, 0, 0, 0]\<close>.\<close>

theorem transition_matrix_all_dead:
  "transition_matrix notebook [0, 0, 0, 0, 1, 0] 0 = Inl NonFinite"
  by (simp add: transition_matrix_def hc_six notebook_fields getitem_def float_div_def
      float64_div_def)

text \<open>
  Claim C4, amended. For every population vector of six entries whose contact pool
  \<open>H + C + S + X + I\<close> is zero (every index that \<open>R_0\<close> accepts, a non-zero length of
  sickness), the division in \<open>hc\<close> is carried out unguarded: \<open>hc\<close> is not a finite number,
  in particular not 0, and neither the matrix nor the next population is one of finite
  numbers.
\<close>

theorem hc_zero_contact_pool:
  fixes countermeasures :: int
  assumes "length population = 6"
      and "- int (length (R_0 g)) \<le> countermeasures"
      and "countermeasures < int (length (R_0 g))"
      and "lenght_of_sickness_for_R_0 g \<noteq> 0"
      and "population ! 0 + population ! 1 + population ! 2 + population ! 3 + population ! 5 = 0"
  shows "hc g population countermeasures = Inl NonFinite \<and>
         transition_matrix g population countermeasures = Inl NonFinite \<and>
         covid_19_one_day g population countermeasures = Inl NonFinite"
proof -
  from assms(1) obtain h c s x d i where pv: "population = [h, c, s, x, d, i]"
    using list6 by blast
  from assms(2,3) obtain r where r: "getitem (R_0 g) countermeasures = Inr r"
    using getitem_Inr by blast
  from assms(5) pv have z: "h + c + s + x + i = 0" by simp
  have "hc g population countermeasures = Inl NonFinite"
    using pv r z assms(4) by (simp add: hc_six float_div_def float64_div_def)
  then show ?thesis
    by (simp add: transition_matrix_def covid_19_one_day_def)
qed

theorem hc_zero_contact_pool_witness:
  "hc notebook [0, 0, 0, 0, 7, 0] (- 1) = Inl NonFinite \<and>
   transition_matrix notebook [0, 0, 0, 0, 7, 0] (- 1) = Inl NonFinite \<and>
   covid_19_one_day notebook [0, 0, 0, 0, 7, 0] (- 1) = Inl NonFinite"
  using hc_zero_contact_pool [of "[0, 0, 0, 0, 7, 0]" notebook "- 1"]
  by (simp add: notebook_fields)

text \<open>With everybody dead under lockdown, \<open>hc\<close> is not 0.\<close>

theorem hc_all_dead_not_zero:
  "hc notebook [0, 0, 0, 0, 61000100, 0] 2 = Inl NonFinite \<and>
   hc notebook [0, 0, 0, 0, 61000100, 0] 2 \<noteq> Inr 0"
  by (simp add: hc_six notebook_fields getitem_def float_div_def float64_div_def)

section \<open>The simulation\<close>

subsection \<open>Truncation, normalisation and the loop\<close>

lemma py_int_near: "\<bar>real_of_int (py_int v) - v\<bar> < 1"
  by (simp add: py_int_def) linarith

lemma py_int_mono: "v \<le> w \<Longrightarrow> py_int v \<le> py_int w"
proof -
  assume vw: "v \<le> w"
  have "\<lceil>v\<rceil> \<le> \<lfloor>w\<rfloor>" if "v < 0" "0 \<le> w"
  proof -
    from that(1) have "\<lceil>v\<rceil> \<le> 0" by (simp add: ceiling_le_iff)
    moreover from that(2) have "0 \<le> \<lfloor>w\<rfloor>" by simp
    ultimately show ?thesis by linarith
  qed
  with vw show ?thesis
    by (auto simp: py_int_def intro: floor_mono ceiling_mono)
qed

lemma py_int_le: "0 \<le> v \<Longrightarrow> real_of_int (py_int v) \<le> v"
  by (simp add: py_int_def)

lemma reported_sum_near:
  assumes "length pv = 6"
  shows "\<bar>real_of_int (sum_list (map (\<lambda>num. py_int (num * T)) pv)) - sum_list pv * T\<bar> < 6"
proof -
  from assms obtain a b c d e f where pv: "pv = [a, b, c, d, e, f]"
    using list6 by blast
  have "\<bar>real_of_int (py_int (a * T)) - a * T\<bar> < 1" "\<bar>real_of_int (py_int (b * T)) - b * T\<bar> < 1"
    "\<bar>real_of_int (py_int (c * T)) - c * T\<bar> < 1" "\<bar>real_of_int (py_int (d * T)) - d * T\<bar> < 1"
    "\<bar>real_of_int (py_int (e * T)) - e * T\<bar> < 1" "\<bar>real_of_int (py_int (f * T)) - f * T\<bar> < 1"
    by (rule py_int_near)+
  then show ?thesis unfolding pv by (simp add: algebra_simps)
qed

lemma reported_sum_le:
  assumes "length pv = 6" "list_all (\<lambda>v. 0 \<le> v) pv" "0 \<le> T"
  shows "real_of_int (sum_list (map (\<lambda>num. py_int (num * T)) pv)) \<le> sum_list pv * T"
proof -
  from assms obtain a b c d e f where pv: "pv = [a, b, c, d, e, f]"
    using list6 by blast
  have "real_of_int (py_int (v * T)) \<le> v * T" if "0 \<le> v" for v
    using that assms(3) by (simp add: py_int_le)
  from this[of a] this[of b] this[of c] this[of d] this[of e] this[of f] assms(2)
  show ?thesis unfolding pv by (simp add: algebra_simps)
qed

lemma normalise_Inr: "T \<noteq> 0 \<Longrightarrow> normalise xs T = Inr (map (\<lambda>v. v / T) xs)"
  by (induction xs) (simp_all add: float_div_def)

lemma normalise_zero: "xs \<noteq> [] \<Longrightarrow> normalise xs 0 = Inl ZeroDivisionError"
  by (cases xs) (simp_all add: float_div_def)

lemma for_days_append:
  "for_days body (xs @ ys) st = bindE (for_days body xs st) (for_days body ys)"
proof (induction xs arbitrary: st)
  case Nil
  show ?case by simp
next
  case (Cons x xs)
  show ?case by (cases "body x st") (simp_all add: Cons.IH)
qed

lemma for_days_invariant:
  assumes "for_days body days st = Inr st'" and "P st"
      and "\<And>day s s'. P s \<Longrightarrow> body day s = Inr s' \<Longrightarrow> P s'"
  shows "P st'"
  using assms(1,2)
proof (induction days arbitrary: st)
  case Nil
  then show ?case by simp
next
  case (Cons day days)
  from Cons.prems(1) obtain s where s: "body day st = Inr s" and r: "for_days body days s = Inr st'"
    by (auto simp: bindE_eq_Inr)
  from assms(3) [OF Cons.prems(2) s] have "P s" .
  with r show ?case by (rule Cons.IH)
qed

lemma for_days_total:
  assumes "P st" and "\<And>day s. P s \<Longrightarrow> \<exists>s'. body day s = Inr s' \<and> P s'"
  shows "\<exists>st'. for_days body days st = Inr st' \<and> P st'"
  using assms(1)
proof (induction days arbitrary: st)
  case Nil
  then show ?case by simp
next
  case (Cons day days)
  from assms(2) [OF Cons.prems] obtain s where s: "body day st = Inr s" and "P s" by blast
  from Cons.IH [OF \<open>P s\<close>] s show ?case by simp
qed

lemma py_range_Suc: "0 \<le> n \<Longrightarrow> py_range (n + 1) = py_range n @ [n]"
  by (simp add: py_range_def nat_add_distrib)

text \<open>The equations by which a run on given inputs is evaluated.\<close>

lemmas run_simps = simulate_covid19_def simulate_loop_def seed_vector_def float_div_def float64_div_def
  notebook_fields py_range_def loop_body_def government_countermeasures_def
  covid_19_one_day_def transition_matrix_def hc_six dot_six getitem_def py_int_def Let_def

lemma seed_vector_InrD:
  "seed_vector g Healthy Dead Immune = Inr pop_vector \<Longrightarrow> length pop_vector = 6"
  by (auto simp: seed_vector_def bindE_eq_Inr)

lemma normalise_InrD:
  assumes "normalise xs T = Inr ys" "xs \<noteq> []"
  shows "T \<noteq> 0 \<and> ys = map (\<lambda>v. v / T) xs"
proof (cases "T = 0")
  case True
  with assms show ?thesis by (simp add: normalise_zero)
next
  case False
  with assms show ?thesis by (simp add: normalise_Inr)
qed

lemma sum_list_normalised:
  fixes T :: real
  assumes "length xs = 6" "T \<noteq> 0"
  shows "sum_list (map (\<lambda>v. v / T) xs) = sum_list xs / T"
proof -
  from assms(1) obtain a b c d e f where "xs = [a, b, c, d, e, f]"
    using list6 by blast
  then show ?thesis by (simp add: add_divide_distrib)
qed

lemma loop_body_InrD:
  assumes "loop_body g T sda la day s = Inr s'"
  shows "\<exists>pv. covid_19_one_day g (population_vector s)
                (government_countermeasures sda la day (countermeasures s)) = Inr pv \<and>
              countermeasures s' = government_countermeasures sda la day (countermeasures s) \<and>
              population_vector s' = pv \<and>
              evolution s' = evolution s @ [map (\<lambda>num. py_int (num * T)) pv]"
  using assms by (auto simp: loop_body_def Let_def bindE_eq_Inr)

lemma simulate_loop_InrD:
  assumes "simulate_loop g Healthy Dead Immune total_days sda la = Inr st"
  shows "\<exists>pop_vector. seed_vector g Healthy Dead Immune = Inr pop_vector \<and>
           sum_list pop_vector \<noteq> 0 \<and>
           for_days (loop_body g (sum_list pop_vector) sda la) (py_range total_days)
             \<lparr> countermeasures = 0,
               population_vector = map (\<lambda>v. v / sum_list pop_vector) pop_vector,
               evolution = [] \<rparr> = Inr st"
proof -
  from assms obtain pop_vector pv0 where
    sv: "seed_vector g Healthy Dead Immune = Inr pop_vector" and
    n: "normalise pop_vector (sum_list pop_vector) = Inr pv0" and
    l: "for_days (loop_body g (sum_list pop_vector) sda la) (py_range total_days)
             \<lparr> countermeasures = 0, population_vector = pv0, evolution = [] \<rparr> = Inr st"
    by (auto simp: simulate_loop_def Let_def bindE_eq_Inr)
  from sv have "pop_vector \<noteq> []" by (auto dest: seed_vector_InrD)
  with n have "sum_list pop_vector \<noteq> 0 \<and> pv0 = map (\<lambda>v. v / sum_list pop_vector) pop_vector"
    by (rule normalise_InrD)
  with sv l show ?thesis by blast
qed

lemma simulate_covid19_evolution:
  "simulate_loop g Healthy Dead Immune total_days sda la = Inr st \<Longrightarrow>
   simulate_covid19 g Healthy Dead Immune total_days sda la = Inr (evolution st)"
  by (simp add: simulate_covid19_def)

lemma for_days_length:
  "for_days (loop_body g T sda la) days st = Inr st' \<Longrightarrow>
   \<exists>more. evolution st' = evolution st @ more \<and> length more = length days"
proof (induction days arbitrary: st)
  case Nil
  then show ?case by simp
next
  case (Cons day days)
  from Cons.prems obtain s where s: "loop_body g T sda la day st = Inr s"
    and r: "for_days (loop_body g T sda la) days s = Inr st'"
    by (auto simp: bindE_eq_Inr)
  from loop_body_InrD [OF s] obtain row where "evolution s = evolution st @ [row]" by blast
  with Cons.IH [OF r] show ?case by auto
qed

lemma simulate_loop_eq:
  assumes "seed_vector g Healthy Dead Immune = Inr pop_vector" and "sum_list pop_vector \<noteq> 0"
  shows "simulate_loop g Healthy Dead Immune total_days sda la =
           for_days (loop_body g (sum_list pop_vector) sda la) (py_range total_days)
             \<lparr> countermeasures = 0,
               population_vector = map (\<lambda>v. v / sum_list pop_vector) pop_vector,
               evolution = [] \<rparr>"
  using assms by (simp add: simulate_loop_def Let_def normalise_Inr)

lemma length_py_range: "length (py_range n) = nat n"
  by (simp add: py_range_def)

lemma py_range_split:
  assumes "d < nat n"
  shows "py_range n = py_range (int d + 1) @ map int [Suc d..<nat n]"
proof -
  from assms have "Suc d + (nat n - Suc d) = nat n" by simp
  with upt_add_eq_append [of 0 "Suc d" "nat n - Suc d"]
  have "[0..<nat n] = [0..<Suc d] @ [Suc d..<nat n]" by simp
  moreover have "nat (int d + 1) = Suc d" by simp
  ultimately show ?thesis by (simp add: py_range_def del: upt_Suc)
qed

lemma run_prefix:
  assumes sv: "seed_vector g Healthy Dead Immune = Inr pop_vector"
      and T: "sum_list pop_vector \<noteq> 0"
      and run: "simulate_loop g Healthy Dead Immune total_days sda la = Inr st"
      and d: "d < nat total_days"
  shows "\<exists>st_d. simulate_loop g Healthy Dead Immune (int d + 1) sda la = Inr st_d \<and>
                evolution st_d \<noteq> [] \<and> evolution st ! d = last (evolution st_d)"
proof -
  define init where "init = \<lparr> countermeasures = 0,
      population_vector = map (\<lambda>v. v / sum_list pop_vector) pop_vector, evolution = [] \<rparr>"
  define body where "body = loop_body g (sum_list pop_vector) sda la"
  from run have "for_days body (py_range (int d + 1) @ map int [Suc d..<nat total_days]) init = Inr st"
    by (simp add: simulate_loop_eq [OF sv T] py_range_split [OF d] init_def body_def)
  then obtain st_d where pre: "for_days body (py_range (int d + 1)) init = Inr st_d"
    and post: "for_days body (map int [Suc d..<nat total_days]) st_d = Inr st"
    by (auto simp: for_days_append bindE_eq_Inr)
  from for_days_length [OF pre [unfolded body_def]]
  have len: "length (evolution st_d) = Suc d"
    by (auto simp: init_def length_py_range)
  from for_days_length [OF post [unfolded body_def]] obtain more where
    "evolution st = evolution st_d @ more" by blast
  with len have "evolution st ! d = evolution st_d ! d" by (simp add: nth_append)
  also from len have "\<dots> = last (evolution st_d)"
    by (cases "evolution st_d" rule: rev_cases) (simp_all add: nth_append)
  finally have "evolution st ! d = last (evolution st_d)" .
  moreover from len have "evolution st_d \<noteq> []" by auto
  moreover have "simulate_loop g Healthy Dead Immune (int d + 1) sda la = Inr st_d"
    using pre by (simp add: simulate_loop_eq [OF sv T] init_def body_def)
  ultimately show ?thesis by blast
qed

lemma first_day:
  assumes sv: "seed_vector g Healthy Dead Immune = Inr pop_vector"
      and T: "sum_list pop_vector \<noteq> 0"
      and run: "simulate_loop g Healthy Dead Immune 1 sda la = Inr st"
  shows "covid_19_one_day g (map (\<lambda>v. v / sum_list pop_vector) pop_vector)
           (government_countermeasures sda la 0 0) = Inr (population_vector st)"
proof -
  have "py_range 1 = [0]" by (simp add: py_range_def)
  with run have "loop_body g (sum_list pop_vector) sda la 0 \<lparr> countermeasures = 0,
      population_vector = map (\<lambda>v. v / sum_list pop_vector) pop_vector, evolution = [] \<rparr> = Inr st"
    by (simp add: simulate_loop_eq [OF sv T] bindE_eq_Inr)
  from loop_body_InrD [OF this] show ?thesis by simp
qed

subsection \<open>Conservation\<close>

text \<open>
  Claim C2, amended. In every run that yields a trajectory, the vector of fractions
  that the loop carries sums to exactly 1 after every day (the population is conserved
  across every step), and the sum of the six reported entries of every day of the
  trajectory differs from the sum of the seed population by less than 6: each entry is
  cut to an integer. (The claim as stated asks for equality within a relative 1e-6.)
\<close>

theorem population_conserved:
  assumes seed: "seed_vector g Healthy Dead Immune = Inr pop_vector"
      and run: "simulate_loop g Healthy Dead Immune total_days social_distance_after lockdown_after = Inr st"
  shows "simulate_covid19 g Healthy Dead Immune total_days social_distance_after lockdown_after
           = Inr (evolution st) \<and>
         sum_list (population_vector st) = 1 \<and>
         (\<forall>state \<in> set (evolution st).
            \<bar>real_of_int (sum_list state) - sum_list pop_vector\<bar> < 6)"
proof -
  define T where "T = sum_list pop_vector"
  define P where "P s \<longleftrightarrow> length (population_vector s) = 6 \<and> sum_list (population_vector s) = 1 \<and>
      (\<forall>state \<in> set (evolution s). \<bar>real_of_int (sum_list state) - T\<bar> < 6)"
    for s :: loop_state
  from simulate_loop_InrD [OF run] seed have T0: "T \<noteq> 0" and
    l: "for_days (loop_body g T social_distance_after lockdown_after) (py_range total_days)
             \<lparr> countermeasures = 0, population_vector = map (\<lambda>v. v / T) pop_vector,
               evolution = [] \<rparr> = Inr st"
    by (auto simp: T_def)
  have len: "length pop_vector = 6" using seed by (rule seed_vector_InrD)
  have init: "P \<lparr> countermeasures = 0, population_vector = map (\<lambda>v. v / T) pop_vector,
               evolution = [] \<rparr>"
    using len T0 by (simp add: P_def sum_list_normalised) (simp add: T_def)
  have step: "P s'" if "P s" and b: "loop_body g T social_distance_after lockdown_after day s = Inr s'"
    for day s s'
  proof -
    from loop_body_InrD [OF b] obtain pv where
      od: "covid_19_one_day g (population_vector s)
             (government_countermeasures social_distance_after lockdown_after day (countermeasures s)) = Inr pv"
      and pv: "population_vector s' = pv"
      and ev: "evolution s' = evolution s @ [map (\<lambda>num. py_int (num * T)) pv]"
      by blast
    from one_day_sum [OF od] \<open>P s\<close> have l6: "length pv = 6" and s1: "sum_list pv = 1"
      by (simp_all add: P_def)
    from reported_sum_near [OF l6, of T] s1
    have "\<bar>real_of_int (sum_list (map (\<lambda>num. py_int (num * T)) pv)) - T\<bar> < 6" by simp
    with \<open>P s\<close> l6 s1 pv ev show ?thesis by (auto simp: P_def)
  qed
  from for_days_invariant [of _ _ _ st P, OF l init step] have "P st" .
  with simulate_covid19_evolution [OF run] show ?thesis
    by (simp add: P_def T_def)
qed

text \<open>A run of one day from 1000 healthy and one dead, without countermeasures.\<close>

theorem population_conserved_witness:
  "simulate_covid19 notebook 1000 1 0 1 600 600 = Inr [[991, 41, 24, 9, 1, 4]] \<and>
   \<bar>real_of_int (sum_list [991, 41, 24, 9, 1, 4])
      - sum_list [1000, 79582753791 / 2086023914, 26527584597 / 1043011957, 295773 / 31837, 1, 0]\<bar> < 6"
proof -
  have seed: "seed_vector notebook 1000 1 0
      = Inr [1000, 79582753791 / 2086023914, 26527584597 / 1043011957, 295773 / 31837, 1, 0]"
    by (simp add: run_simps)
  have "\<exists>st. simulate_loop notebook 1000 1 0 1 600 600 = Inr st \<and> evolution st = [[991, 41, 24, 9, 1, 4]]"
    by (simp add: run_simps)
  then obtain st where run: "simulate_loop notebook 1000 1 0 1 600 600 = Inr st"
    and ev: "evolution st = [[991, 41, 24, 9, 1, 4]]" by blast
  from population_conserved [OF seed run] ev show ?thesis by simp
qed

text \<open>In that run the seed population sums to about 1073.8 and the reported day to
  1070: the relative difference is about 3.5e-3.\<close>

theorem reported_total_off_by_more_than_tolerance:
  "simulate_covid19 notebook 1000 1 0 1 600 600 = Inr [[991, 41, 24, 9, 1, 4]] \<and>
   seed_vector notebook 1000 1 0
      = Inr [1000, 79582753791 / 2086023914, 26527584597 / 1043011957, 295773 / 31837, 1, 0] \<and>
   \<not> \<bar>real_of_int (sum_list [991, 41, 24, 9, 1, 4])
      - sum_list [1000, 79582753791 / 2086023914, 26527584597 / 1043011957, 295773 / 31837, 1, 0]\<bar>
      \<le> 1 / 1000000 * sum_list [1000, 79582753791 / 2086023914, 26527584597 / 1043011957, 295773 / 31837, 1, 0]"
  by (simp add: run_simps)

section \<open>Runs from a plausible configuration\<close>

lemma plausible_notebook: "plausible notebook"
  by (simp add: plausible_def notebook_fields)

lemma hc_bounds:
  fixes r L n h i :: real
  assumes "0 \<le> r" "r \<le> L" "0 < L" "0 \<le> n" "0 \<le> h" "0 \<le> i" "0 < h + n + i"
  shows "0 \<le> r / L * n / (h + n + i) \<and> r / L * n / (h + n + i) \<le> 1"
proof -
  have q: "0 \<le> r / L" "r / L \<le> 1" using assms(1-3) by simp_all
  have "r / L * n \<le> 1 * n" using q(2) assms(4) by (rule mult_right_mono)
  also have "\<dots> \<le> h + n + i" using assms(5,6) by simp
  finally have le: "r / L * n \<le> h + n + i" .
  from assms(7) have "(r / L * n / (h + n + i) \<le> 1) = (r / L * n \<le> h + n + i)"
    by (rule divide_le_eq_1_pos)
  with le have "r / L * n / (h + n + i) \<le> 1" by blast
  moreover have "0 \<le> r / L * n / (h + n + i)"
  proof (rule divide_nonneg_pos)
    show "0 \<le> r / L * n" using q(1) assms(4) by (rule mult_nonneg_nonneg)
    show "0 < h + n + i" by (rule assms(7))
  qed
  ultimately show ?thesis by simp
qed

lemma fractions_six:
  "fractions [h, c, s, x, d, i] \<longleftrightarrow>
     0 \<le> h \<and> 0 \<le> c \<and> 0 \<le> s \<and> 0 \<le> x \<and> 0 \<le> d \<and> 0 \<le> i \<and> h + c + s + x + d + i = 1 \<and> d < 1"
  by (auto simp: fractions_def)

lemma one_day_fractions:
  assumes g: "plausible g" and pv: "fractions pv" and k: "0 \<le> k" "k \<le> 2"
  shows "\<exists>pv'. covid_19_one_day g pv k = Inr pv' \<and> fractions pv' \<and>
               pv ! 4 \<le> pv' ! 4 \<and> pv ! 5 \<le> pv' ! 5"
proof -
  from pv have "length pv = 6" by (simp add: fractions_def)
  then obtain h c s x d i where eq: "pv = [h, c, s, x, d, i]"
    using list6 by blast
  with pv have nn: "0 \<le> h" "0 \<le> c" "0 \<le> s" "0 \<le> x" "0 \<le> d" "0 \<le> i"
    and sum: "h + c + s + x + d + i = 1" and d1: "d < 1"
    by (simp_all add: fractions_six)
  from sum d1 have pool: "0 < h + c + s + x + i" by linarith
  from g have L: "0 < lenght_of_sickness_for_R_0 g" and len: "3 \<le> length (R_0 g)"
    and rs: "list_all (\<lambda>r. 0 \<le> r \<and> r \<le> of_int (lenght_of_sickness_for_R_0 g)) (R_0 g)"
    by (simp_all add: plausible_def)
  from k len obtain r where r: "getitem (R_0 g) k = Inr r" and "r \<in> set (R_0 g)"
    using getitem_Inr [of "R_0 g" k] by auto
  with rs have r0: "0 \<le> r" and rL: "r \<le> of_int (lenght_of_sickness_for_R_0 g)"
    by (simp_all add: list_all_iff)
  define p where "p = r / of_int (lenght_of_sickness_for_R_0 g) * (c + s + x) / (h + c + s + x + i)"
  have "0 \<le> p \<and> p \<le> 1"
    using hc_bounds [of r "of_int (lenght_of_sickness_for_R_0 g)" "c + s + x" h i] r0 rL L nn pool
    by (simp add: p_def add.assoc)
  then have p0: "0 \<le> p" and p1: "p \<le> 1" by simp_all
  have hcp: "hc g pv k = Inr p"
    using r L pool by (simp add: eq hc_six float_div_def float64_div_def p_def)
  define pv' where "pv' = [h * (1 - p), h * p + c * (1 - cs g - ci g), c * cs g + s * (1 - sx g - si g),
          s * sx g + x * (1 - xd g - xi g), x * xd g + d, c * ci g + s * si g + x * xi g + i]"
  have od: "covid_19_one_day g pv k = Inr pv'"
    using hcp by (simp add: covid_19_one_day_def transition_matrix_def eq dot_six pv'_def)
  from g have rates: "0 \<le> cs g" "0 \<le> ci g" "cs g + ci g \<le> 1" "0 \<le> sx g" "0 \<le> si g"
    "sx g + si g \<le> 1" "0 \<le> xd g" "0 \<le> xi g" "xd g + xi g \<le> 1" "xd g < 1"
    by (simp_all add: plausible_def)
  have e0: "0 \<le> h * (1 - p)" using nn p1 by simp
  have e1: "0 \<le> h * p + c * (1 - cs g - ci g)" using nn p0 rates by simp
  have e2: "0 \<le> c * cs g + s * (1 - sx g - si g)" using nn rates by simp
  have e3: "0 \<le> s * sx g + x * (1 - xd g - xi g)" using nn rates by simp
  have xd0: "0 \<le> x * xd g" using nn rates by simp
  have e5: "0 \<le> c * ci g + s * si g + x * xi g" using nn rates by simp
  have "x * xd g < h + c + s + x + i"
  proof (cases "x = 0")
    case True
    with pool show ?thesis by simp
  next
    case False
    with nn have "0 < x" by simp
    with rates have "x * xd g < x * 1" by (intro mult_strict_left_mono) simp_all
    with nn show ?thesis by simp
  qed
  with sum have e4: "x * xd g + d < 1" by linarith
  from one_day_sum [OF od] sum eq have s1: "sum_list pv' = 1" by simp
  have "fractions pv'"
    using e0 e1 e2 e3 xd0 e5 e4 nn s1 unfolding pv'_def fractions_six by simp
  moreover have "pv ! 4 \<le> pv' ! 4" "pv ! 5 \<le> pv' ! 5"
    using xd0 e5 by (simp_all add: eq pv'_def)
  ultimately show ?thesis using od by blast
qed

lemma seed_fractions:
  assumes g: "plausible g" and nn: "0 \<le> Healthy" "0 \<le> Dead" "0 \<le> Immune"
      and pos: "0 < Healthy + Dead + Immune"
  shows "\<exists>pop_vector. seed_vector g Healthy Dead Immune = Inr pop_vector \<and>
           0 < sum_list pop_vector \<and>
           fractions (map (\<lambda>v. v / sum_list pop_vector) pop_vector)"
proof -
  define pd where "pd = prob_dead_from_hospitalizable g"
  define ph where "ph = prob_hospitalizable_from_symptomatic g"
  define ps where "ps = prob_symptomatic_from_carrier g"
  from g have b: "0 < pd" "pd < 1" "0 < ph" "ph \<le> 1" "0 < ps" "ps \<le> 1"
    by (simp_all add: plausible_def pd_def ph_def ps_def)
  define X where "X = Dead * (1 - pd) / pd"
  define S where "S = X * (1 - ph) / ph"
  define C where "C = S * (1 - ps) / ps"
  have sv: "seed_vector g Healthy Dead Immune = Inr [Healthy, C, S, X, Dead, Immune]"
    using b by (simp add: seed_vector_def float_div_def X_def S_def C_def pd_def ph_def ps_def)
  have X0: "0 \<le> X" using nn b by (simp add: X_def)
  have S0: "0 \<le> S" using X0 b by (simp add: S_def)
  have C0: "0 \<le> C" using S0 b by (simp add: C_def)
  have Xpos: "0 < X" if "0 < Dead" using that b by (simp add: X_def)
  define T where "T = Healthy + C + S + X + Dead + Immune"
  have T0: "0 < T" using pos X0 S0 C0 by (simp add: T_def)
  have DT: "Dead < T"
  proof (cases "0 < Dead")
    case True
    from Xpos [OF this] nn S0 C0 show ?thesis by (simp add: T_def)
  next
    case False
    with nn pos have "0 < Healthy + Immune" by simp
    with X0 S0 C0 show ?thesis by (simp add: T_def)
  qed
  have "fractions [Healthy / T, C / T, S / T, X / T, Dead / T, Immune / T]"
    unfolding fractions_six using nn X0 S0 C0 T0 DT
    by (simp add: add_divide_distrib [symmetric] T_def [symmetric])
  moreover have "sum_list [Healthy, C, S, X, Dead, Immune] = T" by (simp add: T_def)
  ultimately show ?thesis using sv T0 by simp
qed

lemma government_countermeasures_range:
  "0 \<le> k \<Longrightarrow> k \<le> 2 \<Longrightarrow>
   0 \<le> government_countermeasures sda la day k \<and> government_countermeasures sda la day k \<le> 2"
  by (simp add: government_countermeasures_def)

lemma loop_body_invariant:
  assumes g: "plausible g" and T: "0 \<le> T" and inv: "loop_invariant T s"
  shows "\<exists>s'. loop_body g T sda la day s = Inr s' \<and> loop_invariant T s'"
proof -
  define k where "k = government_countermeasures sda la day (countermeasures s)"
  define pv where "pv = population_vector s"
  from inv have k: "0 \<le> k" "k \<le> 2"
    using government_countermeasures_range [of "countermeasures s" sda la day]
    by (simp_all add: loop_invariant_def k_def)
  from inv have fr: "fractions pv" by (simp add: loop_invariant_def pv_def)
  from one_day_fractions [OF g fr k] obtain pv' where
    od: "covid_19_one_day g pv k = Inr pv'" and fr': "fractions pv'"
    and d: "pv ! 4 \<le> pv' ! 4" and i: "pv ! 5 \<le> pv' ! 5" by blast
  define new where "new = map (\<lambda>num. py_int (num * T)) pv'"
  define s' where "s' = \<lparr> countermeasures = k, population_vector = pv',
                           evolution = evolution s @ [new] \<rparr>"
  have body: "loop_body g T sda la day s = Inr s'"
    using od by (simp add: loop_body_def Let_def k_def pv_def s'_def new_def)
  from fr' have l6: "length pv' = 6" and s1: "sum_list pv' = 1"
    and nn: "list_all (\<lambda>v. 0 \<le> v) pv'"
    by (simp_all add: fractions_def)
  have n4: "new ! 4 = py_int (pv' ! 4 * T)" and n5: "new ! 5 = py_int (pv' ! 5 * T)"
    using l6 by (simp_all add: new_def)
  have up: "real_of_int (sum_list new) \<le> T"
    using reported_sum_le [OF l6 nn T] s1 by (simp add: new_def)
  have "\<bar>real_of_int (sum_list new) - T\<bar> < 6"
    using reported_sum_near [OF l6, of T] s1 by (simp add: new_def)
  then have lo: "T - 6 < real_of_int (sum_list new)" by linarith
  have m4: "py_int (pv ! 4 * T) \<le> py_int (pv' ! 4 * T)"
    using d T by (intro py_int_mono mult_right_mono)
  have m5: "py_int (pv ! 5 * T) \<le> py_int (pv' ! 5 * T)"
    using i T by (intro py_int_mono mult_right_mono)
  from inv have old: "list_all (\<lambda>state. state ! 4 \<le> py_int (pv ! 4 * T) \<and>
                       state ! 5 \<le> py_int (pv ! 5 * T) \<and>
                       real_of_int (sum_list state) \<le> T \<and>
                       T - 6 < real_of_int (sum_list state)) (evolution s)"
    and so4: "sorted (map (\<lambda>state. state ! 4) (evolution s))"
    and so5: "sorted (map (\<lambda>state. state ! 5) (evolution s))"
    by (simp_all add: loop_invariant_def pv_def)
  have all': "list_all (\<lambda>state. state ! 4 \<le> py_int (pv' ! 4 * T) \<and>
                       state ! 5 \<le> py_int (pv' ! 5 * T) \<and>
                       real_of_int (sum_list state) \<le> T \<and>
                       T - 6 < real_of_int (sum_list state)) (evolution s @ [new])"
    using old m4 m5 up lo n4 n5 by (auto simp: list_all_iff)
  have so4': "sorted (map (\<lambda>state. state ! 4) (evolution s @ [new]))"
    using so4 old m4 n4 by (auto simp: sorted_append list_all_iff)
  have so5': "sorted (map (\<lambda>state. state ! 5) (evolution s @ [new]))"
    using so5 old m5 n5 by (auto simp: sorted_append list_all_iff)
  have "loop_invariant T s'"
    using fr' k all' so4' so5' by (simp add: loop_invariant_def s'_def new_def)
  with body show ?thesis by blast
qed

lemma simulate_loop_total:
  assumes g: "plausible g" and nn: "0 \<le> Healthy" "0 \<le> Dead" "0 \<le> Immune"
      and pos: "0 < Healthy + Dead + Immune"
  shows "\<exists>pop_vector st. seed_vector g Healthy Dead Immune = Inr pop_vector \<and>
           0 < sum_list pop_vector \<and>
           simulate_loop g Healthy Dead Immune total_days sda la = Inr st \<and>
           loop_invariant (sum_list pop_vector) st \<and>
           length (evolution st) = nat total_days"
proof -
  from seed_fractions [OF g nn pos] obtain pop_vector where
    sv: "seed_vector g Healthy Dead Immune = Inr pop_vector" and T: "0 < sum_list pop_vector"
    and fr: "fractions (map (\<lambda>v. v / sum_list pop_vector) pop_vector)" by blast
  define T where "T = sum_list pop_vector"
  define init where "init = \<lparr> countermeasures = 0,
               population_vector = map (\<lambda>v. v / T) pop_vector, evolution = [] \<rparr>"
  have eq: "simulate_loop g Healthy Dead Immune total_days sda la =
           for_days (loop_body g T sda la) (py_range total_days) init"
    using simulate_loop_eq [OF sv] T by (simp add: T_def init_def)
  have "loop_invariant T init" using fr by (simp add: loop_invariant_def init_def T_def)
  moreover have "\<exists>s'. loop_body g T sda la day s = Inr s' \<and> loop_invariant T s'"
    if "loop_invariant T s" for day s
    using loop_body_invariant [OF g _ that] T by (simp add: T_def)
  ultimately obtain st where st: "for_days (loop_body g T sda la) (py_range total_days) init = Inr st"
    and inv: "loop_invariant T st"
    using for_days_total [of "loop_invariant T" init "loop_body g T sda la" "py_range total_days"]
    by blast
  from for_days_length [OF st] have "length (evolution st) = nat total_days"
    by (auto simp: init_def length_py_range)
  with sv T st inv eq show ?thesis by (auto simp: T_def)
qed

subsection \<open>Absorbing states\<close>

text \<open>
  Claim C5. Under a plausible configuration, every run from non-negative seeds that are
  not all zero yields a trajectory of \<open>total_days\<close> days, and for all days \<open>d \<le> d'\<close> of it
  (consecutive days among them) the Dead count of day \<open>d'\<close> is at least that of day \<open>d\<close>,
  and so is the Immune count.
\<close>

theorem dead_and_immune_never_decrease:
  assumes "plausible g" and "0 \<le> Healthy" and "0 \<le> Dead" and "0 \<le> Immune"
      and "0 < Healthy + Dead + Immune"
  shows "\<exists>evo. simulate_covid19 g Healthy Dead Immune total_days social_distance_after lockdown_after
                 = Inr evo \<and>
               length evo = nat total_days \<and>
               (\<forall>d d'. d \<le> d' \<and> d' < length evo \<longrightarrow>
                  evo ! d ! 4 \<le> evo ! d' ! 4 \<and> evo ! d ! 5 \<le> evo ! d' ! 5)"
proof -
  from simulate_loop_total [OF assms] obtain pop_vector st where
    run: "simulate_loop g Healthy Dead Immune total_days social_distance_after lockdown_after = Inr st"
    and inv: "loop_invariant (sum_list pop_vector) st"
    and len: "length (evolution st) = nat total_days" by blast
  from inv have so4: "sorted (map (\<lambda>state. state ! 4) (evolution st))"
    and so5: "sorted (map (\<lambda>state. state ! 5) (evolution st))"
    by (simp_all add: loop_invariant_def)
  have "evolution st ! d ! 4 \<le> evolution st ! d' ! 4 \<and> evolution st ! d ! 5 \<le> evolution st ! d' ! 5"
    if "d \<le> d'" "d' < length (evolution st)" for d d'
    using sorted_nth_mono [OF so4, of d d'] sorted_nth_mono [OF so5, of d d'] that by simp
  with simulate_covid19_evolution [OF run] len show ?thesis by blast
qed

text \<open>Ten days with the notebook's values, from 999900 healthy and 100 dead, social
  distancing from day 0 and lockdown from day 20.\<close>

theorem dead_and_immune_never_decrease_witness:
  "\<exists>evo. simulate_covid19 notebook 999900 100 0 10 0 20 = Inr evo \<and>
         length evo = nat 10 \<and>
         (\<forall>d d'. d \<le> d' \<and> d' < length evo \<longrightarrow>
            evo ! d ! 4 \<le> evo ! d' ! 4 \<and> evo ! d ! 5 \<le> evo ! d' ! 5)"
  using dead_and_immune_never_decrease [of notebook 999900 100 0 10 0 20]
  by (simp add: plausible_notebook)

subsection \<open>What the trajectory holds\<close>

text \<open>
  Claim C10. Under a plausible configuration, in a run from non-negative seeds that are
  not all zero, the entry of day \<open>d\<close> of the trajectory is
  \<^verbatim>\<open>[int(num * all_population) for num in population_vector]\<close> for the vector of fractions
  after \<open>d + 1\<close> passes of the loop (the vector a run of \<open>d + 1\<close> days ends with), where
  \<^verbatim>\<open>all_population\<close> is the sum of the seed population; the sum of its six entries is at
  most that sum and exceeds it less 6; and the first entry is the truncation of the
  vector after one step from the normalised seed, not the seed.
\<close>

theorem reported_entries_truncated:
  assumes "plausible g" and "0 \<le> Healthy" and "0 \<le> Dead" and "0 \<le> Immune"
      and "0 < Healthy + Dead + Immune"
  shows "\<exists>pop_vector evo.
           seed_vector g Healthy Dead Immune = Inr pop_vector \<and>
           simulate_covid19 g Healthy Dead Immune total_days social_distance_after lockdown_after
             = Inr evo \<and>
           length evo = nat total_days \<and>
           (\<forall>d < length evo. \<exists>st.
              simulate_loop g Healthy Dead Immune (int d + 1) social_distance_after lockdown_after
                = Inr st \<and>
              evo ! d = map (\<lambda>num. py_int (num * sum_list pop_vector)) (population_vector st) \<and>
              real_of_int (sum_list (evo ! d)) \<le> sum_list pop_vector \<and>
              sum_list pop_vector - 6 < real_of_int (sum_list (evo ! d))) \<and>
           (0 < total_days \<longrightarrow> (\<exists>pv.
              covid_19_one_day g (map (\<lambda>v. v / sum_list pop_vector) pop_vector)
                (government_countermeasures social_distance_after lockdown_after 0 0) = Inr pv \<and>
              evo ! 0 = map (\<lambda>num. py_int (num * sum_list pop_vector)) pv))"
proof -
  from simulate_loop_total [OF assms] obtain pop_vector st where
    sv: "seed_vector g Healthy Dead Immune = Inr pop_vector" and T: "0 < sum_list pop_vector"
    and run: "simulate_loop g Healthy Dead Immune total_days social_distance_after lockdown_after = Inr st"
    and len: "length (evolution st) = nat total_days" by blast
  define T where "T = sum_list pop_vector"
  from T have T0: "sum_list pop_vector \<noteq> 0" by simp
  have day: "\<exists>st_d. simulate_loop g Healthy Dead Immune (int d + 1) social_distance_after lockdown_after
                = Inr st_d \<and>
              evolution st ! d = map (\<lambda>num. py_int (num * T)) (population_vector st_d) \<and>
              real_of_int (sum_list (evolution st ! d)) \<le> T \<and>
              T - 6 < real_of_int (sum_list (evolution st ! d))"
    if "d < length (evolution st)" for d
  proof -
    from that len have d: "d < nat total_days" by simp
    from run_prefix [OF sv T0 run d] obtain st_d where
      rd: "simulate_loop g Healthy Dead Immune (int d + 1) social_distance_after lockdown_after = Inr st_d"
      and ne: "evolution st_d \<noteq> []" and nth: "evolution st ! d = last (evolution st_d)" by blast
    from simulate_loop_total [OF assms, of "int d + 1" social_distance_after lockdown_after] sv rd
    have inv: "loop_invariant T st_d" by (auto simp: T_def)
    with ne have l: "last (evolution st_d) = map (\<lambda>num. py_int (num * T)) (population_vector st_d)"
      by (simp add: loop_invariant_def)
    from ne have "last (evolution st_d) \<in> set (evolution st_d)" by simp
    moreover from inv have "\<forall>state \<in> set (evolution st_d).
        real_of_int (sum_list state) \<le> T \<and> T - 6 < real_of_int (sum_list state)"
      by (simp add: loop_invariant_def list_all_iff)
    ultimately have "real_of_int (sum_list (last (evolution st_d))) \<le> T \<and>
        T - 6 < real_of_int (sum_list (last (evolution st_d)))"
      by blast
    with rd nth l show ?thesis by auto
  qed
  have first: "\<exists>pv. covid_19_one_day g (map (\<lambda>v. v / sum_list pop_vector) pop_vector)
                (government_countermeasures social_distance_after lockdown_after 0 0) = Inr pv \<and>
              evolution st ! 0 = map (\<lambda>num. py_int (num * T)) pv" if "0 < total_days"
  proof -
    from that len have "0 < length (evolution st)" by simp
    from day [OF this] obtain st_0 where
      r0: "simulate_loop g Healthy Dead Immune 1 social_distance_after lockdown_after = Inr st_0"
      and e0: "evolution st ! 0 = map (\<lambda>num. py_int (num * T)) (population_vector st_0)"
      by auto
    from first_day [OF sv T0 r0] e0 show ?thesis by blast
  qed
  from sv simulate_covid19_evolution [OF run] len day first show ?thesis
    unfolding T_def by blast
qed

text \<open>The same ten days. After one day the seed
  \<open>[999900, 3815.04.., 2543.36.., 929.02.., 100, 0]\<close> of total \<open>1007287.4..\<close> is reported as a
  vector of sum \<open>1007285\<close>.\<close>

theorem reported_entries_truncated_witness:
  "(\<exists>pop_vector evo.
      seed_vector notebook 999900 100 0 = Inr pop_vector \<and>
      simulate_covid19 notebook 999900 100 0 10 0 20 = Inr evo \<and>
      length evo = nat 10 \<and>
      (\<forall>d < length evo. \<exists>st.
         simulate_loop notebook 999900 100 0 (int d + 1) 0 20 = Inr st \<and>
         evo ! d = map (\<lambda>num. py_int (num * sum_list pop_vector)) (population_vector st) \<and>
         real_of_int (sum_list (evo ! d)) \<le> sum_list pop_vector \<and>
         sum_list pop_vector - 6 < real_of_int (sum_list (evo ! d))) \<and>
      (\<exists>pv. covid_19_one_day notebook (map (\<lambda>v. v / sum_list pop_vector) pop_vector)
              (government_countermeasures 0 20 0 0) = Inr pv \<and>
            evo ! 0 = map (\<lambda>num. py_int (num * sum_list pop_vector)) pv)) \<and>
   simulate_covid19 notebook 999900 100 0 1 0 20 = Inr [[999285, 3946, 2492, 972, 122, 468]]"
proof -
  have "simulate_covid19 notebook 999900 100 0 1 0 20 = Inr [[999285, 3946, 2492, 972, 122, 468]]"
    by (simp add: run_simps)
  with reported_entries_truncated [of notebook 999900 100 0 10 0 20]
  show ?thesis by (simp add: plausible_notebook)
qed

subsection \<open>The phase of the day\<close>

lemma government_fold:
  "fold (government_countermeasures sda la) (py_range (int d + 1)) 0 =
     (if la \<le> int d then 2 else if sda \<le> int d then 1 else 0)"
proof (induction d)
  case 0
  show ?case by (simp add: py_range_def government_countermeasures_def)
next
  case (Suc d)
  have "py_range (int (Suc d) + 1) = py_range (int d + 1) @ [int d + 1]"
    using py_range_Suc [of "int d + 1"] by (simp add: add.commute)
  with Suc.IH show ?case
    by (simp add: government_countermeasures_def)
qed

lemma phases_by_onset_ordered:
  "0 \<le> sda \<Longrightarrow> sda \<le> la \<Longrightarrow> phases_by_onset sda la = [0, 1, 2]"
  by (simp add: phases_by_onset_def sort_key_def onset_day_def)

lemma last_phase_begun_eq:
  "0 \<le> sda \<Longrightarrow> sda \<le> la \<Longrightarrow> 0 \<le> day \<Longrightarrow>
   last_phase_begun sda la day = (if la \<le> day then 2 else if sda \<le> day then 1 else 0)"
  by (simp add: last_phase_begun_def phases_by_onset_ordered onset_day_def)

lemma for_days_countermeasures:
  "for_days (loop_body g T sda la) days st = Inr st' \<Longrightarrow>
   countermeasures st' = fold (government_countermeasures sda la) days (countermeasures st)"
proof (induction days arbitrary: st)
  case Nil
  then show ?case by simp
next
  case (Cons day days)
  from Cons.prems obtain s where s: "loop_body g T sda la day st = Inr s"
    and r: "for_days (loop_body g T sda la) days s = Inr st'"
    by (auto simp: bindE_eq_Inr)
  from loop_body_InrD [OF s] have "countermeasures s = government_countermeasures sda la day (countermeasures st)"
    by blast
  with Cons.IH [OF r] show ?case by simp
qed

text \<open>The pass of the loop for day \<open>d\<close> of a run: from the variables after \<open>d\<close> days to those
  after \<open>d + 1\<close> days.\<close>

lemma day_step:
  assumes run: "simulate_loop g Healthy Dead Immune total_days sda la = Inr st"
      and d: "int d < total_days"
  shows "\<exists>pop_vector st_before st_d.
           seed_vector g Healthy Dead Immune = Inr pop_vector \<and>
           simulate_loop g Healthy Dead Immune (int d) sda la = Inr st_before \<and>
           simulate_loop g Healthy Dead Immune (int d + 1) sda la = Inr st_d \<and>
           covid_19_one_day g (population_vector st_before)
             (fold (government_countermeasures sda la) (py_range (int d + 1)) 0)
             = Inr (population_vector st_d) \<and>
           countermeasures st_d = fold (government_countermeasures sda la) (py_range (int d + 1)) 0 \<and>
           evolution st ! d
             = map (\<lambda>num. py_int (num * sum_list pop_vector)) (population_vector st_d)"
proof -
  from simulate_loop_InrD [OF run] obtain pop_vector where
    sv: "seed_vector g Healthy Dead Immune = Inr pop_vector" and T: "sum_list pop_vector \<noteq> 0"
    by blast
  define init where "init = \<lparr> countermeasures = 0,
      population_vector = map (\<lambda>v. v / sum_list pop_vector) pop_vector, evolution = [] \<rparr>"
  define body where "body = loop_body g (sum_list pop_vector) sda la"
  from d have "d < nat total_days" by simp
  from run_prefix [OF sv T run this] obtain st_d where
    rd: "simulate_loop g Healthy Dead Immune (int d + 1) sda la = Inr st_d"
    and nth: "evolution st ! d = last (evolution st_d)" by blast
  have "py_range (int d + 1) = py_range (int d) @ [int d]"
    by (rule py_range_Suc) simp
  with rd have all: "for_days body (py_range (int d) @ [int d]) init = Inr st_d"
    by (simp add: simulate_loop_eq [OF sv T] init_def body_def)
  then obtain st_before where pre: "for_days body (py_range (int d)) init = Inr st_before"
    and pass: "body (int d) st_before = Inr st_d"
    by (auto simp: for_days_append bindE_eq_Inr)
  have rb: "simulate_loop g Healthy Dead Immune (int d) sda la = Inr st_before"
    using pre by (simp add: simulate_loop_eq [OF sv T] init_def body_def)
  from for_days_countermeasures [OF all [unfolded body_def]]
  have lev: "countermeasures st_d = fold (government_countermeasures sda la) (py_range (int d + 1)) 0"
    using \<open>py_range (int d + 1) = py_range (int d) @ [int d]\<close> by (simp add: init_def)
  from loop_body_InrD [OF pass [unfolded body_def]] obtain pv where
    od: "covid_19_one_day g (population_vector st_before)
           (government_countermeasures sda la (int d) (countermeasures st_before)) = Inr pv"
    and c: "countermeasures st_d = government_countermeasures sda la (int d) (countermeasures st_before)"
    and pv: "population_vector st_d = pv"
    and ev: "evolution st_d = evolution st_before @ [map (\<lambda>num. py_int (num * sum_list pop_vector)) pv]"
    by blast
  from od c pv lev have step: "covid_19_one_day g (population_vector st_before)
             (fold (government_countermeasures sda la) (py_range (int d + 1)) 0)
             = Inr (population_vector st_d)" by simp
  from nth ev pv have "evolution st ! d
      = map (\<lambda>num. py_int (num * sum_list pop_vector)) (population_vector st_d)" by simp
  with sv rb rd step lev show ?thesis by blast
qed

text \<open>
  Claim C6, amended. The level of countermeasures of day \<open>d\<close> is the value of the loop's
  variable after the two tests of days \<open>0, ..., d\<close>. For every schedule it is 2 (lockdown)
  when \<open>lockdown_after \<le> d\<close>, else 1 (social distancing) when \<open>social_distance_after \<le> d\<close>,
  else 0, and it does not decrease as \<open>d\<close> grows. For a schedule with
  \<open>0 \<le> social_distance_after \<le> lockdown_after\<close> it is the last phase, in the order of
  increasing onset, whose onset is not after \<open>d\<close>. In every run of more than \<open>d\<close> days the
  step of day \<open>d\<close> is computed with it: \<^verbatim>\<open>covid_19_one_day\<close>, applied to the vector after \<open>d\<close>
  days and this level, gives the vector after \<open>d + 1\<close> days, whose truncation is the entry
  of day \<open>d\<close> of the trajectory. (The claim as stated asks for the last phase by onset under
  every schedule; a lockdown that begins before social distancing stays in force.)
\<close>

theorem phase_of_the_day:
  fixes d d' :: nat
  shows "fold (government_countermeasures social_distance_after lockdown_after)
           (py_range (int d + 1)) 0
           = (if lockdown_after \<le> int d then 2
              else if social_distance_after \<le> int d then 1 else 0) \<and>
         (0 \<le> social_distance_after \<and> social_distance_after \<le> lockdown_after \<longrightarrow>
            fold (government_countermeasures social_distance_after lockdown_after)
              (py_range (int d + 1)) 0
            = last_phase_begun social_distance_after lockdown_after (int d)) \<and>
         (d \<le> d' \<longrightarrow>
            fold (government_countermeasures social_distance_after lockdown_after)
              (py_range (int d + 1)) 0
            \<le> fold (government_countermeasures social_distance_after lockdown_after)
              (py_range (int d' + 1)) 0) \<and>
         (\<forall>total_days st.
            int d < total_days \<and>
            simulate_loop g Healthy Dead Immune total_days social_distance_after lockdown_after
              = Inr st \<longrightarrow>
            (\<exists>pop_vector st_before st_d.
               seed_vector g Healthy Dead Immune = Inr pop_vector \<and>
               simulate_loop g Healthy Dead Immune (int d) social_distance_after lockdown_after
                 = Inr st_before \<and>
               simulate_loop g Healthy Dead Immune (int d + 1) social_distance_after lockdown_after
                 = Inr st_d \<and>
               covid_19_one_day g (population_vector st_before)
                 (fold (government_countermeasures social_distance_after lockdown_after)
                    (py_range (int d + 1)) 0)
                 = Inr (population_vector st_d) \<and>
               countermeasures st_d
                 = fold (government_countermeasures social_distance_after lockdown_after)
                     (py_range (int d + 1)) 0 \<and>
               evolution st ! d
                 = map (\<lambda>num. py_int (num * sum_list pop_vector)) (population_vector st_d)))"
proof (intro conjI allI impI)
  show "fold (government_countermeasures social_distance_after lockdown_after)
           (py_range (int d + 1)) 0
           = (if lockdown_after \<le> int d then 2
              else if social_distance_after \<le> int d then 1 else 0)"
    by (rule government_fold)
next
  assume "0 \<le> social_distance_after \<and> social_distance_after \<le> lockdown_after"
  then show "fold (government_countermeasures social_distance_after lockdown_after)
              (py_range (int d + 1)) 0
            = last_phase_begun social_distance_after lockdown_after (int d)"
    by (simp add: government_fold last_phase_begun_eq)
next
  assume "d \<le> d'"
  then show "fold (government_countermeasures social_distance_after lockdown_after)
              (py_range (int d + 1)) 0
            \<le> fold (government_countermeasures social_distance_after lockdown_after)
              (py_range (int d' + 1)) 0"
    by (simp add: government_fold)
next
  fix total_days st
  assume "int d < total_days \<and>
    simulate_loop g Healthy Dead Immune total_days social_distance_after lockdown_after = Inr st"
  then show "\<exists>pop_vector st_before st_d.
               seed_vector g Healthy Dead Immune = Inr pop_vector \<and>
               simulate_loop g Healthy Dead Immune (int d) social_distance_after lockdown_after
                 = Inr st_before \<and>
               simulate_loop g Healthy Dead Immune (int d + 1) social_distance_after lockdown_after
                 = Inr st_d \<and>
               covid_19_one_day g (population_vector st_before)
                 (fold (government_countermeasures social_distance_after lockdown_after)
                    (py_range (int d + 1)) 0)
                 = Inr (population_vector st_d) \<and>
               countermeasures st_d
                 = fold (government_countermeasures social_distance_after lockdown_after)
                     (py_range (int d + 1)) 0 \<and>
               evolution st ! d
                 = map (\<lambda>num. py_int (num * sum_list pop_vector)) (population_vector st_d)"
    using day_step [of g Healthy Dead Immune total_days social_distance_after lockdown_after st d]
    by blast
qed

text \<open>Social distancing from day 10 and lockdown from day 20, in a run of 300 days from
  61000000 healthy and 100 dead: the step of day 14 is computed under social distancing.\<close>

theorem phase_of_the_day_witness:
  "fold (government_countermeasures 10 20) (py_range (int 14 + 1)) 0 = 1 \<and>
   last_phase_begun 10 20 (int 14) = 1 \<and>
   fold (government_countermeasures 10 20) (py_range (int 14 + 1)) 0
     \<le> fold (government_countermeasures 10 20) (py_range (int 25 + 1)) 0 \<and>
   (\<exists>pop_vector st st_before st_d.
      seed_vector notebook 61000000 100 0 = Inr pop_vector \<and>
      simulate_loop notebook 61000000 100 0 300 10 20 = Inr st \<and>
      simulate_loop notebook 61000000 100 0 (int 14) 10 20 = Inr st_before \<and>
      simulate_loop notebook 61000000 100 0 (int 14 + 1) 10 20 = Inr st_d \<and>
      covid_19_one_day notebook (population_vector st_before) 1 = Inr (population_vector st_d) \<and>
      countermeasures st_d = 1 \<and>
      evolution st ! 14 = map (\<lambda>num. py_int (num * sum_list pop_vector)) (population_vector st_d))"
proof -
  note t = phase_of_the_day [of 10 20 14 25 notebook 61000000 100 0]
  from t have l: "fold (government_countermeasures 10 20) (py_range (int 14 + 1)) 0 = 1"
    by simp
  from t l have o: "last_phase_begun 10 20 (int 14) = 1" by simp
  from t have m: "fold (government_countermeasures 10 20) (py_range (int 14 + 1)) 0
     \<le> fold (government_countermeasures 10 20) (py_range (int 25 + 1)) 0" by simp
  obtain st where run: "simulate_loop notebook 61000000 100 0 300 10 20 = Inr st"
    using simulate_loop_total [of notebook 61000000 100 0 300 10 20]
    by (auto simp: plausible_notebook)
  from t have "int 14 < 300 \<and> simulate_loop notebook 61000000 100 0 300 10 20 = Inr st \<longrightarrow>
      (\<exists>pop_vector st_before st_d.
        seed_vector notebook 61000000 100 0 = Inr pop_vector \<and>
        simulate_loop notebook 61000000 100 0 (int 14) 10 20 = Inr st_before \<and>
        simulate_loop notebook 61000000 100 0 (int 14 + 1) 10 20 = Inr st_d \<and>
        covid_19_one_day notebook (population_vector st_before)
          (fold (government_countermeasures 10 20) (py_range (int 14 + 1)) 0)
          = Inr (population_vector st_d) \<and>
        countermeasures st_d = fold (government_countermeasures 10 20) (py_range (int 14 + 1)) 0 \<and>
        evolution st ! 14 = map (\<lambda>num. py_int (num * sum_list pop_vector)) (population_vector st_d))"
    by blast
  with run have "\<exists>pop_vector st_before st_d.
        seed_vector notebook 61000000 100 0 = Inr pop_vector \<and>
        simulate_loop notebook 61000000 100 0 (int 14) 10 20 = Inr st_before \<and>
        simulate_loop notebook 61000000 100 0 (int 14 + 1) 10 20 = Inr st_d \<and>
        covid_19_one_day notebook (population_vector st_before)
          (fold (government_countermeasures 10 20) (py_range (int 14 + 1)) 0)
          = Inr (population_vector st_d) \<and>
        countermeasures st_d = fold (government_countermeasures 10 20) (py_range (int 14 + 1)) 0 \<and>
        evolution st ! 14 = map (\<lambda>num. py_int (num * sum_list pop_vector)) (population_vector st_d)"
    by simp
  then obtain pop_vector st_before st_d where
    "seed_vector notebook 61000000 100 0 = Inr pop_vector"
    "simulate_loop notebook 61000000 100 0 (int 14) 10 20 = Inr st_before"
    "simulate_loop notebook 61000000 100 0 (int 14 + 1) 10 20 = Inr st_d"
    "covid_19_one_day notebook (population_vector st_before)
          (fold (government_countermeasures 10 20) (py_range (int 14 + 1)) 0)
          = Inr (population_vector st_d)"
    "countermeasures st_d = fold (government_countermeasures 10 20) (py_range (int 14 + 1)) 0"
    "evolution st ! 14 = map (\<lambda>num. py_int (num * sum_list pop_vector)) (population_vector st_d)"
    by blast
  with l o m run show ?thesis by (intro conjI exI [of _ pop_vector] exI [of _ st]
      exI [of _ st_before] exI [of _ st_d]) simp_all
qed

text \<open>Lockdown from day 20 and social distancing from day 100. Ordered by onset the
  phases are 0, 2, 1, and the last whose onset is not after day 150 is social distancing;
  the step of day 150 is computed under lockdown.\<close>

theorem lockdown_before_social_distancing:
  "fold (government_countermeasures 100 20) (py_range (int 150 + 1)) 0 = 2 \<and>
   last_phase_begun 100 20 (int 150) = 1 \<and>
   simulate_loop notebook 61000000 100 0 (int 150 + 1) 100 20
     = Inr (projr (simulate_loop notebook 61000000 100 0 (int 150 + 1) 100 20)) \<and>
   covid_19_one_day notebook
     (population_vector (projr (simulate_loop notebook 61000000 100 0 (int 150) 100 20))) 2
     = Inr (population_vector (projr (simulate_loop notebook 61000000 100 0 (int 150 + 1) 100 20)))"
proof -
  have l: "fold (government_countermeasures 100 20) (py_range (int 150 + 1)) 0 = 2"
    by (simp only: government_fold) simp
  have o: "last_phase_begun 100 20 (int 150) = 1"
    by (simp add: last_phase_begun_def phases_by_onset_def sort_key_def onset_day_def)
  obtain st where run: "simulate_loop notebook 61000000 100 0 (int 150 + 1) 100 20 = Inr st"
    using simulate_loop_total [of notebook 61000000 100 0 "int 150 + 1" 100 20]
    by (auto simp: plausible_notebook)
  from day_step [OF run, of 150] obtain st_before st_d where
    b: "simulate_loop notebook 61000000 100 0 (int 150) 100 20 = Inr st_before" and
    a: "simulate_loop notebook 61000000 100 0 (int 150 + 1) 100 20 = Inr st_d" and
    s: "covid_19_one_day notebook (population_vector st_before)
          (fold (government_countermeasures 100 20) (py_range (int 150 + 1)) 0)
          = Inr (population_vector st_d)"
    by auto
  from s have "covid_19_one_day notebook (population_vector st_before) 2 = Inr (population_vector st_d)"
    by (simp only: l)
  with l o a b show ?thesis by (simp only: sum.sel)
qed

section \<open>Configuration\<close>

lemma notebook_eq: "transition_probabilities notebook_assumptions = Inr notebook"
  by (simp add: notebook_def transition_probabilities_def notebook_assumptions_def float_div_def)

text \<open>
  Claim C7, amended. The derivation of the six one-day probabilities validates
  nothing: whenever the six average durations are not zero it yields the rates
  \<open>prob * 1 / avg\<close> without an error, whatever the sum of two rates that leave the same
  state. With the notebook's own constants each such sum is strictly below 1.
\<close>

theorem transition_probabilities_unvalidated:
  assumes "carrier_to_symptomatic_avg a \<noteq> 0" and "carrier_to_immune_avg a \<noteq> 0"
      and "symptomatic_to_hospitalizable_avg a \<noteq> 0" and "symptomatic_to_immune_avg a \<noteq> 0"
      and "hospitalizable_to_death_avg a \<noteq> 0" and "hospitalizable_to_immune_avg a \<noteq> 0"
  shows "(\<exists>g. transition_probabilities a = Inr g \<and>
            cs g = prob_symptomatic_from_carrier a * 1 / of_int (carrier_to_symptomatic_avg a) \<and>
            ci g = prob_immune_from_carrier a * 1 / of_int (carrier_to_immune_avg a) \<and>
            sx g = prob_hospitalizable_from_symptomatic a * 1 / of_int (symptomatic_to_hospitalizable_avg a) \<and>
            si g = prob_immune_from_symptomatic a * 1 / of_int (symptomatic_to_immune_avg a) \<and>
            xd g = prob_dead_from_hospitalizable a * 1 / of_int (hospitalizable_to_death_avg a) \<and>
            xi g = prob_immune_from_hospitalizable a * 1 / of_int (hospitalizable_to_immune_avg a)) \<and>
         cs notebook + ci notebook < 1 \<and> sx notebook + si notebook < 1 \<and>
         xd notebook + xi notebook < 1"
  using assms
  by (simp add: transition_probabilities_def float_div_def assumptions.defs globals.defs
      notebook_fields)

theorem transition_probabilities_unvalidated_witness:
  "(\<exists>g. transition_probabilities notebook_assumptions = Inr g \<and>
        cs g = 2 / 5 * 1 / 6 \<and> ci g = 3 / 5 * 1 / 10 \<and>
        sx g = 32761 / 122450 * 1 / 5 \<and> si g = 89689 / 122450 * 1 / 11 \<and>
        xd g = 31837 / 327610 * 1 / 4 \<and> xi g = 295773 / 327610 * 1 / 12) \<and>
   cs notebook + ci notebook < 1 \<and> sx notebook + si notebook < 1 \<and>
   xd notebook + xi notebook < 1"
  using transition_probabilities_unvalidated [of notebook_assumptions]
  by (simp add: notebook_assumptions_def asymptomatic_carriers_vs_all_def w_sum_cdc_def dr_cdc_def)

text \<open>With both average durations of the carrier state set to one day, the rates out of
  Carrier are 2/5 and 3/5: they sum to 1, and the derivation succeeds.\<close>

theorem transition_probabilities_sum_one:
  "transition_probabilities
     (notebook_assumptions \<lparr> carrier_to_symptomatic_avg := 1, carrier_to_immune_avg := 1 \<rparr>)
     = Inr (notebook \<lparr> carrier_to_symptomatic_avg := 1, carrier_to_immune_avg := 1,
                       cs := 2 / 5, ci := 3 / 5 \<rparr>) \<and>
   \<not> (2 / 5 + 3 / 5 < (1 :: real))"
  by (simp add: notebook_def transition_probabilities_def notebook_assumptions_def float_div_def
      assumptions.defs globals.defs scenario.defs asymptomatic_carriers_vs_all_def)

text \<open>
  Claim C8, amended. If one of the three shares used in the back-derivation of the seed
  (of the dead among the hospitalizable, of the hospitalizable among the symptomatic, of
  the symptomatic among the carriers) is exactly 0, the back-derivation does not divide
  silently: it fails with Python's \<^verbatim>\<open>ZeroDivisionError\<close>, raised by the division itself
  when \<^verbatim>\<open>simulate_covid19\<close> runs, and so does the simulation. (The notebook defines no
  error class of its own.)
\<close>

theorem back_derivation_zero_ratio:
  assumes "prob_dead_from_hospitalizable g = 0 \<or> prob_hospitalizable_from_symptomatic g = 0 \<or>
           prob_symptomatic_from_carrier g = 0"
  shows "seed_vector g Healthy Dead Immune = Inl ZeroDivisionError \<and>
         simulate_covid19 g Healthy Dead Immune total_days social_distance_after lockdown_after
           = Inl ZeroDivisionError"
proof -
  from assms have "seed_vector g Healthy Dead Immune = Inl ZeroDivisionError"
    by (auto simp: seed_vector_def float_div_def)
  then show ?thesis by (simp add: simulate_covid19_def simulate_loop_def)
qed

theorem back_derivation_zero_ratio_witness:
  "seed_vector (notebook \<lparr> prob_hospitalizable_from_symptomatic := 0 \<rparr>) 61000000 100 0
     = Inl ZeroDivisionError \<and>
   simulate_covid19 (notebook \<lparr> prob_hospitalizable_from_symptomatic := 0 \<rparr>) 61000000 100 0 300 0 20
     = Inl ZeroDivisionError"
  using back_derivation_zero_ratio
    [of "notebook \<lparr> prob_hospitalizable_from_symptomatic := 0 \<rparr>" 61000000 100 0 300 0 20]
  by simp

text \<open>With a share of the dead among the hospitalizable of 0, the error of the
  back-derivation is \<^verbatim>\<open>ZeroDivisionError\<close>.\<close>

theorem back_derivation_raises_ZeroDivisionError:
  "seed_vector (notebook \<lparr> prob_dead_from_hospitalizable := 0 \<rparr>) 999900 100 0
     = Inl ZeroDivisionError"
  by (simp add: seed_vector_def float_div_def)

end
